theory Spec2Isabelle
  imports Complex_Main
begin

section \<open>Errors\<close>

text \<open>
  The exceptions the modelled Python code can raise.  A fallible function returns
  \<open>py_error + 'a\<close>, with \<open>Inl\<close> the raised exception.
\<close>

datatype py_error = ValueError | ZeroDivisionError | RuntimeError | TypeError | UnboundLocalError

section \<open>Complex tensors\<close>

text \<open>
  A real feature map or kernel of rank 4 (\<open>[N, C, H, W]\<close>, or \<open>[out, in, kh, kw]\<close>) is a
  nested list.  A complex tensor stacks a real and an imaginary part on a leading axis of
  size 2 (\<open>cmplx\<close>, cmplx.py); it is modelled as the pair of its two slices, so \<open>x[0]\<close>
  is \<open>fst x\<close> and \<open>x[1]\<close> is \<open>snd x\<close>.  \<open>torch.stack\<close> raises unless both parts have
  the same shape; the theorems below take equal-shaped parts (\<open>same_shape4\<close>) as their
  hypothesis.  Floating-point numbers are idealised as reals.
\<close>

type_synonym 'a t4 = "'a list list list list"

definition cmplx :: "'a \<Rightarrow> 'a \<Rightarrow> 'a \<times> 'a" where
  "cmplx re_part im_part = (re_part, im_part)"

text \<open>Elementwise operations, shapes and index ranges.\<close>

definition map_t4 :: "('a \<Rightarrow> 'b) \<Rightarrow> 'a t4 \<Rightarrow> 'b t4" where
  "map_t4 f = map (map (map (map f)))"

definition zip_t4 :: "('a \<Rightarrow> 'b \<Rightarrow> 'c) \<Rightarrow> 'a t4 \<Rightarrow> 'b t4 \<Rightarrow> 'c t4" where
  "zip_t4 f = map2 (map2 (map2 (map2 f)))"

definition same_shape4 :: "'a t4 \<Rightarrow> 'b t4 \<Rightarrow> bool" where
  "same_shape4 = list_all2 (list_all2 (list_all2 (\<lambda>r s. length r = length s)))"

definition in_range4 :: "'a t4 \<Rightarrow> nat \<Rightarrow> nat \<Rightarrow> nat \<Rightarrow> nat \<Rightarrow> bool" where
  "in_range4 t n c h w \<longleftrightarrow>
     n < length t \<and> c < length (t ! n) \<and> h < length (t ! n ! c) \<and> w < length (t ! n ! c ! h)"

text \<open>
  \<open>magnitude\<close> (cmplx.py): \<open>x.pow(2).sum(dim=0)\<close> adds the squares of the two slices
  elementwise; \<open>torch.clamp(x, min=eps)\<close> is the elementwise maximum with \<open>eps\<close>.
\<close>

definition magnitude :: "real t4 \<times> real t4 \<Rightarrow> real \<Rightarrow> bool \<Rightarrow> real t4" where
  "magnitude x eps sq =
     (let s = zip_t4 (+) (map_t4 (\<lambda>v. v ^ 2) (fst x)) (map_t4 (\<lambda>v. v ^ 2) (snd x))
      in if sq then s else map_t4 (\<lambda>v. sqrt (max v eps)) s)"

text \<open>
  \<open>relu_cmplx_z\<close> (cmplx.py).  The condition \<open>x[0] > 0\<close> has rank 4 and is broadcast by
  \<open>torch.where\<close> over the leading axis of \<open>x\<close>, so it selects in both slices.  The
  second \<open>torch.where\<close> reads the imaginary slice of the result of the first.
\<close>

definition zeros_like :: "real t4 \<times> real t4 \<Rightarrow> real t4 \<times> real t4" where
  "zeros_like x = (map_t4 (\<lambda>_. 0) (fst x), map_t4 (\<lambda>_. 0) (snd x))"

definition select :: "bool t4 \<Rightarrow> 'a t4 \<Rightarrow> 'a t4 \<Rightarrow> 'a t4" where
  "select cond a b = zip_t4 (\<lambda>c (p, q). if c then p else q) cond (zip_t4 Pair a b)"

definition torch_where :: "bool t4 \<Rightarrow> 'a t4 \<times> 'a t4 \<Rightarrow> 'a t4 \<times> 'a t4 \<Rightarrow> 'a t4 \<times> 'a t4" where
  "torch_where cond a b = (select cond (fst a) (fst b), select cond (snd a) (snd b))"

definition relu_cmplx_z :: "real t4 \<times> real t4 \<Rightarrow> real t4 \<times> real t4" where
  "relu_cmplx_z x =
     (let x1 = torch_where (map_t4 (\<lambda>v. 0 < v) (fst x)) x (zeros_like x);
          x2 = torch_where (map_t4 (\<lambda>v. 0 < v) (snd x1)) x1 (zeros_like x1)
      in x2)"

section \<open>Complex convolution\<close>

text \<open>
  \<open>conv_cmplx\<close> (cmplx.py).  The real primitives \<open>F.conv2d\<close> and \<open>F.conv_transpose2d\<close>,
  with the keyword arguments already applied, are parameters.  \<open>w.transpose(1, 2)\<close> swaps
  axes 1 and 2 of the stacked weight \<open>[2, out, in, kh, kw]\<close>, that is the two outer axes of
  each slice.  The differences and sums of the four real convolutions are elementwise.
\<close>

definition conv_cmplx ::
  "(real t4 \<Rightarrow> real t4 \<Rightarrow> real t4) \<Rightarrow> (real t4 \<Rightarrow> real t4 \<Rightarrow> real t4) \<Rightarrow>
   real t4 \<times> real t4 \<Rightarrow> real t4 \<times> real t4 \<Rightarrow> bool \<Rightarrow> real t4 \<times> real t4" where
  "conv_cmplx conv2d conv_transpose2d x w transposed =
     (let conv = (if transposed then conv_transpose2d else conv2d);
          w = (if transposed then (transpose (fst w), transpose (snd w)) else w)
      in cmplx (zip_t4 (-) (conv (fst x) (fst w)) (conv (snd x) (snd w)))
               (zip_t4 (+) (conv (fst x) (snd w)) (conv (snd x) (fst w))))"

section \<open>The Gabor modulation layer and its filter cache\<close>

text \<open>
  \<open>IGaborCmplx\<close> (cmplx_modules.py).  Tensors of rank 5 per slice are lists of rank-4
  tensors.  The product \<open>self.gabor_filters * x.unsqueeze(1)\<close> is the elementwise real
  product under broadcasting: along every axis a side of length 1 is repeated (\<open>bzip\<close>);
  torch raises when the two lengths differ and neither is 1.
\<close>

definition bzip :: "('a \<Rightarrow> 'b \<Rightarrow> 'c) \<Rightarrow> 'a list \<Rightarrow> 'b list \<Rightarrow> 'c list" where
  "bzip f xs ys =
     (if length xs = 1 \<and> length ys \<noteq> 1 then map (f (hd xs)) ys
      else if length ys = 1 \<and> length xs \<noteq> 1 then map (\<lambda>x. f x (hd ys)) xs
      else map2 f xs ys)"

definition mul_bcast5 :: "real t4 list \<Rightarrow> real t4 list \<Rightarrow> real t4 list" where
  "mul_bcast5 = bzip (bzip (bzip (bzip (bzip (*)))))"

text \<open>
  The module state: the parameter tensor \<open>[2, no_g]\<close>, the filter-bank buffer
  \<open>[2, no_g, 1, 1, kh, kw]\<close> and the flag \<open>calc_filters\<close> (\<open>True\<close> is Stale, \<open>False\<close> is
  Valid).  The constructor draws part of the parameters at random and allocates the buffer
  uninitialised, so the initial parameters and buffer contents are arguments; it sets the
  flag to \<open>True\<close>.  The module is used with \<open>layer = False\<close>, as \<open>IGConvCmplx\<close> builds it.
\<close>

record igabor =
  gabor_params :: "real list list"
  gabor_filters :: "real t4 list \<times> real t4 list"
  calc_filters :: bool

definition IGaborCmplx_init ::
  "real list list \<Rightarrow> real t4 list \<times> real t4 list \<Rightarrow> igabor" where
  "IGaborCmplx_init params0 buffer0 =
     \<lparr>gabor_params = params0, gabor_filters = buffer0, calc_filters = True\<rparr>"

text \<open>
  The filter generator \<open>gabor_cmplx\<close> (igabor.py) is a parameter: a
  function of the weight and the current parameters returning the bank \<open>[2, no_g, 1, kh, kw]\<close>.
  \<open>unsqueeze(2)\<close> inserts a singleton axis after the filter axis.
\<close>

definition unsqueeze2 :: "real t4 \<times> real t4 \<Rightarrow> real t4 list \<times> real t4 list" where
  "unsqueeze2 f = (map (\<lambda>a. [a]) (fst f), map (\<lambda>a. [a]) (snd f))"

definition generate_gabor_filters ::
  "(real t4 \<times> real t4 \<Rightarrow> real list list \<Rightarrow> real t4 \<times> real t4) \<Rightarrow>
   igabor \<Rightarrow> real t4 \<times> real t4 \<Rightarrow> igabor" where
  "generate_gabor_filters gabor_cmplx s x =
     s\<lparr>gabor_filters := unsqueeze2 (gabor_cmplx x (gabor_params s)), calc_filters := False\<rparr>"

definition set_filter_calc :: "igabor \<Rightarrow> igabor" where
  "set_filter_calc s = s\<lparr>calc_filters := True\<rparr>"

text \<open>
  The body of \<open>forward\<close> after the cache check: \<open>x.unsqueeze(1)\<close> puts the weight slice
  \<open>[out, in, kh, kw]\<close> under a singleton axis, the broadcast product has shape
  \<open>[no_g, out, in, kh, kw]\<close> per slice, and \<open>view(2, -1, ...)\<close> merges its two outer axes in
  row-major order (\<open>concat\<close>).  The debug message at the head of \<open>forward\<close> evaluates
  \<open>gabor_cmplx\<close> as well, but only to print a size; it changes no state.
\<close>

definition modulate ::
  "real t4 list \<times> real t4 list \<Rightarrow> real t4 \<times> real t4 \<Rightarrow> real t4 \<times> real t4" where
  "modulate filters x =
     (let out = (mul_bcast5 (fst filters) [fst x], mul_bcast5 (snd filters) [snd x])
      in (concat (fst out), concat (snd out)))"

definition IGaborCmplx_forward ::
  "(real t4 \<times> real t4 \<Rightarrow> real list list \<Rightarrow> real t4 \<times> real t4) \<Rightarrow>
   igabor \<Rightarrow> real t4 \<times> real t4 \<Rightarrow> igabor \<times> (real t4 \<times> real t4)" where
  "IGaborCmplx_forward gabor_cmplx s x =
     (let s' = (if calc_filters s then generate_gabor_filters gabor_cmplx s x else s)
      in (s', modulate (gabor_filters s') x))"

text \<open>
  What can happen to a layer between two observations: a forward call, a direct call of
  \<open>generate_gabor_filters\<close>, the backward hook \<open>set_filter_calc\<close> fired by a gradient
  computation, and an update of the parameters (an optimiser step).
\<close>

datatype layer_op =
    Forward "real t4 \<times> real t4"
  | GenerateFilters "real t4 \<times> real t4"
  | BackwardHook
  | UpdateParams "real list list"

fun apply_op ::
  "(real t4 \<times> real t4 \<Rightarrow> real list list \<Rightarrow> real t4 \<times> real t4) \<Rightarrow> layer_op \<Rightarrow> igabor \<Rightarrow> igabor" where
  "apply_op gabor_cmplx (Forward x) s = fst (IGaborCmplx_forward gabor_cmplx s x)"
| "apply_op gabor_cmplx (GenerateFilters x) s = generate_gabor_filters gabor_cmplx s x"
| "apply_op gabor_cmplx BackwardHook s = set_filter_calc s"
| "apply_op gabor_cmplx (UpdateParams p) s = s\<lparr>gabor_params := p\<rparr>"

section \<open>Construction of the Gabor-modulated convolution layer\<close>

text \<open>
  \<open>IGConvCmplx.__init__\<close> (cmplx_modules.py).  The string selecting the pooling over the
  Gabor axis is resolved to the function that \<open>forward\<close> will call; a string that is none
  of \<open>'max'\<close>, \<open>'avg'\<close>, \<open>'mag'\<close> is stored as it is.
\<close>

datatype pooling = TorchMax | TorchMean | MaxMagGaborPool | Unresolved string

record igconv =
  in_channels :: int
  out_channels :: int
  no_g :: int
  gabor_pooling :: "pooling option"

definition resolve_pooling :: "string option \<Rightarrow> pooling option" where
  "resolve_pooling gp =
     (case gp of
        None \<Rightarrow> None
      | Some s \<Rightarrow>
          if s = ''max'' then Some TorchMax
          else if s = ''avg'' then Some TorchMean
          else if s = ''mag'' then Some MaxMagGaborPool
          else Some (Unresolved s))"

text \<open>
  Python's \<open>%\<close> and \<open>//\<close> on integers are floor modulus and floor division, as \<open>mod\<close> and
  \<open>div\<close> on \<open>int\<close> are; both raise \<open>ZeroDivisionError\<close> for a zero divisor.  The
  arguments \<open>kernel_size\<close>, \<open>include_gparams\<close> and the convolution keywords do not enter the
  divisibility check and are left out; \<open>weight_init\<close> is at its default \<open>None\<close>.
\<close>

definition IGConvCmplx_init ::
  "int \<Rightarrow> int \<Rightarrow> int \<Rightarrow> string option \<Rightarrow> py_error + igconv" where
  "IGConvCmplx_init input_features output_features g gp =
     (if gp = None then
        (if g = 0 then Inl ZeroDivisionError
         else if output_features mod g \<noteq> 0 then Inl ValueError
         else Inr \<lparr>in_channels = input_features, out_channels = output_features div g,
                   no_g = g, gabor_pooling = resolve_pooling gp\<rparr>)
      else Inr \<lparr>in_channels = input_features, out_channels = output_features,
                no_g = g, gabor_pooling = resolve_pooling gp\<rparr>)"

section \<open>Forward pass of the Gabor-modulated convolution layer\<close>

text \<open>
  \<open>IGConvCmplx.forward\<close> (cmplx_modules.py).  The constructed module holds, besides its
  configuration, the two real kernels \<open>[out_channels, in_channels, kh, kw]\<close> and the Gabor
  modulation layer.
\<close>

record igconv_module = igconv +
  ReConv_weight :: "real t4"
  ImConv_weight :: "real t4"
  gabor :: igabor

text \<open>
  Python values of different kinds flow through \<open>forward\<close>: \<open>torch.max(t, dim)\<close> and
  \<open>max_mag_gabor_pool\<close> return a tuple of values and indices (the index tensor is not
  modelled further, \<open>forward\<close> discards it), \<open>torch.mean(t, dim)\<close> returns a tensor.  The
  value returned by \<open>forward\<close> is a complex tensor of rank 5 (\<open>Cplx\<close>) or a real tensor of
  rank 4 (\<open>Rl\<close>).
\<close>

datatype fwd_value = Cplx "real t4 \<times> real t4" | Rl "real t4" | Indices

datatype pooled = ValuesIndices "real t4 \<times> real t4" | Tensor "real t4 \<times> real t4"

text \<open>
  \<open>out.view(2, out.size(1), enhanced_weight.size(1) // self.no_g, self.no_g, out.size(3),
  out.size(4))\<close> splits the channel axis of the contiguous convolution output in row-major
  order into consecutive groups of \<open>no_g\<close> channels: entry \<open>(i, k)\<close> of the two new axes is
  channel \<open>i * no_g + k\<close>.  \<open>//\<close> raises for \<open>no_g = 0\<close>, and the view raises unless the
  requested sizes are non-negative and their product is the number of channels (for a
  non-empty feature map).
\<close>

definition split_axis :: "nat \<Rightarrow> 'a list \<Rightarrow> 'a list list" where
  "split_axis g xs = map (\<lambda>i. take g (drop (i * g) xs)) [0..<length xs div g]"

definition pool_view ::
  "real t4 \<times> real t4 \<Rightarrow> int \<Rightarrow> int \<Rightarrow> py_error + (real t4 list \<times> real t4 list)" where
  "pool_view out ew_size1 g =
     (if g = 0 then Inl ZeroDivisionError
      else if g < 0 \<or> \<not> list_all (\<lambda>b. int (length b) = (ew_size1 div g) * g) (fst out @ snd out)
        then Inl RuntimeError
      else Inr (map (split_axis (nat g)) (fst out), map (split_axis (nat g)) (snd out)))"

text \<open>
  The reductions over \<open>dim=3\<close> of the rank-6 tensor, that is over the list of \<open>no_g\<close> planes
  at the third axis of each slice, elementwise within the planes.
\<close>

fun reduce_planes :: "(real \<Rightarrow> real \<Rightarrow> real) \<Rightarrow> real list list list \<Rightarrow> real list list" where
  "reduce_planes f [] = []"
| "reduce_planes f (p # ps) = foldl (map2 (map2 f)) p ps"

definition torch_max_dim3 :: "real t4 list \<times> real t4 list \<Rightarrow> real t4 \<times> real t4" where
  "torch_max_dim3 t =
     (map (map (reduce_planes max)) (fst t), map (map (reduce_planes max)) (snd t))"

definition mean_planes :: "real list list list \<Rightarrow> real list list" where
  "mean_planes ps = map (map (\<lambda>v. v / real (length ps))) (reduce_planes (+) ps)"

definition torch_mean_dim3 :: "real t4 list \<times> real t4 list \<Rightarrow> real t4 \<times> real t4" where
  "torch_mean_dim3 t = (map (map mean_planes) (fst t), map (map mean_planes) (snd t))"

text \<open>
  \<open>self.gabor_pooling(pool_out, dim=3)\<close>: the constructor stored \<open>torch.max\<close>, \<open>torch.mean\<close>,
  \<open>max_mag_gabor_pool\<close> (cmplx.py, a parameter here) or, for any other string, the string
  itself, which is not callable.
\<close>

definition call_pooling ::
  "(real t4 list \<times> real t4 list \<Rightarrow> real t4 \<times> real t4) \<Rightarrow> pooling \<Rightarrow>
   real t4 list \<times> real t4 list \<Rightarrow> py_error + pooled" where
  "call_pooling max_mag_gabor_pool p t =
     (case p of
        TorchMax \<Rightarrow> Inr (ValuesIndices (torch_max_dim3 t))
      | TorchMean \<Rightarrow> Inr (Tensor (torch_mean_dim3 t))
      | MaxMagGaborPool \<Rightarrow> Inr (ValuesIndices (max_mag_gabor_pool t))
      | Unresolved s \<Rightarrow> Inl TypeError)"

text \<open>
  \<open>pool_out, max_idxs = ...\<close>: a tuple is unpacked into its two components; a tensor is
  iterated over its leading axis, which has size 2 here, so the two names are bound to its
  real and its imaginary slice.
\<close>

fun unpack2 :: "pooled \<Rightarrow> fwd_value \<times> fwd_value" where
  "unpack2 (ValuesIndices v) = (Cplx v, Indices)"
| "unpack2 (Tensor t) = (Rl (fst t), Rl (snd t))"

definition IGConvCmplx_forward ::
  "(real t4 \<Rightarrow> real t4 \<Rightarrow> real t4) \<Rightarrow> (real t4 \<Rightarrow> real t4 \<Rightarrow> real t4) \<Rightarrow>
   (real t4 \<times> real t4 \<Rightarrow> real list list \<Rightarrow> real t4 \<times> real t4) \<Rightarrow>
   (real t4 list \<times> real t4 list \<Rightarrow> real t4 \<times> real t4) \<Rightarrow>
   igconv_module \<Rightarrow> real t4 \<times> real t4 \<Rightarrow> py_error + (igconv_module \<times> fwd_value)" where
  "IGConvCmplx_forward conv2d conv_transpose2d gabor_cmplx max_mag_gabor_pool m x =
     (let (gs, enhanced_weight) =
            IGaborCmplx_forward gabor_cmplx (gabor m) (cmplx (ReConv_weight m) (ImConv_weight m));
          m' = m\<lparr>gabor := gs\<rparr>;
          out = conv_cmplx conv2d conv_transpose2d x enhanced_weight False
      in case gabor_pooling m of
           None \<Rightarrow> Inr (m', Cplx out)
         | Some p \<Rightarrow>
             (case pool_view out (int (length (fst enhanced_weight))) (no_g m) of
                Inl e \<Rightarrow> Inl e
              | Inr pool_out \<Rightarrow>
                  (case call_pooling max_mag_gabor_pool p pool_out of
                     Inl e \<Rightarrow> Inl e
                   | Inr r \<Rightarrow> Inr (m', fst (unpack2 r)))))"

text \<open>
  A concrete layer on which \<open>forward\<close> is evaluated below: one input channel, two base
  output channels with real kernels 1 and 2 and imaginary kernels 3 and 4, two Gabor
  filters with real parts 10 and 100 and imaginary parts 1, kernels and feature maps of
  size \<open>1 \<times> 1\<close>.  On such maps \<open>F.conv2d\<close> (no bias) is
  \<open>out[n][c] = \<Sum>i. x[n][i] * w[c][i]\<close>.
\<close>

definition conv2d_pointwise :: "real t4 \<Rightarrow> real t4 \<Rightarrow> real t4" where
  "conv2d_pointwise x w =
     map (\<lambda>xn. map (\<lambda>wc. [[sum_list (map2 (\<lambda>p k. hd (hd p) * hd (hd k)) xn wc)]]) w) x"

definition example_module :: "pooling option \<Rightarrow> igconv_module" where
  "example_module gp =
     \<lparr>in_channels = 1, out_channels = 2, no_g = 2, gabor_pooling = gp,
      ReConv_weight = [[[[1]]], [[[2]]]], ImConv_weight = [[[[3]]], [[[4]]]],
      gabor = IGaborCmplx_init [[0, pi / 2], [0, 0]] ([], [])\<rparr>"

definition example_bank :: "real t4 \<times> real t4 \<Rightarrow> real list list \<Rightarrow> real t4 \<times> real t4" where
  "example_bank x p = ([[[[10]]], [[[100]]]], [[[[1]]], [[[1]]]])"

section \<open>Spatial pooling\<close>

text \<open>
  \<open>max_mag_pool\<close> (cmplx.py).  \<open>flatten(start_dim=3)\<close> merges the two spatial axes of every
  plane of the stacked tensor in row-major order.  \<open>gather(dim=3, index)\<close> reads, for every
  entry of the index, the source plane at that index; it raises unless the index is no
  larger than the source along the other axes and every index is in range (\<open>gather_ok\<close>).
  \<open>view_as\<close> gives the gathered rows the shape of the index tensor again.
\<close>

definition flatten3 :: "'a t4 \<Rightarrow> 'a list list list" where
  "flatten3 t = map (map concat) t"

definition gather_ok :: "'a list list list \<Rightarrow> nat list list list \<Rightarrow> bool" where
  "gather_ok src index \<longleftrightarrow>
     length index \<le> length src \<and>
     list_all (\<lambda>(s, i). length i \<le> length s \<and>
                 list_all (\<lambda>(p, js). list_all (\<lambda>j. j < length p) js) (zip s i))
       (zip src index)"

definition gather3 :: "'a list list list \<Rightarrow> nat list list list \<Rightarrow> 'a list list list" where
  "gather3 src index = map2 (map2 (\<lambda>p js. map (\<lambda>j. p ! j) js)) src index"

fun view_rows :: "'a list \<Rightarrow> 'b list list \<Rightarrow> 'a list list" where
  "view_rows xs [] = []"
| "view_rows xs (r # rs) = take (length r) xs # view_rows (drop (length r) xs) rs"

definition view_as :: "'a list list list \<Rightarrow> 'b t4 \<Rightarrow> 'a t4" where
  "view_as t shape = map2 (map2 view_rows) t shape"

text \<open>
  The pooling primitive \<open>F.max_pool2d(r, kernel_size, return_indices=True)\<close> is a parameter
  returning the pooled values and, per window, the flat index of the maximum within its
  plane.  \<open>magnitude\<close> is called with its default \<open>eps = 1e-8\<close>.
\<close>

definition max_mag_pool ::
  "(real t4 \<Rightarrow> 'k \<Rightarrow> real t4 \<times> nat t4) \<Rightarrow> real t4 \<times> real t4 \<Rightarrow> 'k \<Rightarrow>
   py_error + (real t4 \<times> real t4)" where
  "max_mag_pool max_pool2d_ri x kernel_size =
     (let r = magnitude x (1 / 10 ^ 8) False;
          idxs = snd (max_pool2d_ri r kernel_size);
          cmplx_idxs = cmplx idxs idxs;
          src = (flatten3 (fst x), flatten3 (snd x));
          index = (flatten3 (fst cmplx_idxs), flatten3 (snd cmplx_idxs))
      in if gather_ok (fst src) (fst index) \<and> gather_ok (snd src) (snd index)
         then Inr (view_as (gather3 (fst src) (fst index)) (fst cmplx_idxs),
                   view_as (gather3 (snd src) (snd index)) (snd cmplx_idxs))
         else Inl RuntimeError)"

text \<open>
  \<open>pool_cmplx\<close> (cmplx.py).  \<open>_compress_shape\<close> and \<open>_recover_shape\<close> (igcn/utils.py) are
  parameters; \<open>F.max_pool2d\<close> without indices is the first component
  of the index-returning primitive.  The operator is a string or \<open>None\<close>.
\<close>

definition pool_cmplx ::
  "('x \<Rightarrow> (real t4 \<times> real t4) \<times> 's) \<Rightarrow> (real t4 \<times> real t4 \<Rightarrow> 's \<Rightarrow> 'y) \<Rightarrow>
   (real t4 \<Rightarrow> 'k \<Rightarrow> real t4 \<times> nat t4) \<Rightarrow> (real t4 \<Rightarrow> 'k \<Rightarrow> real t4) \<Rightarrow>
   'x \<Rightarrow> 'k \<Rightarrow> string option \<Rightarrow> py_error + 'y" where
  "pool_cmplx compress_shape recover_shape max_pool2d_ri avg_pool2d x kernel_size operator =
     (let (x1, xs) = compress_shape x;
          pool = (if operator = Some ''avg'' \<or> operator = Some ''average'' then avg_pool2d
                  else (\<lambda>t k. fst (max_pool2d_ri t k)))
      in if operator = Some ''mag''
         then (case max_mag_pool max_pool2d_ri x1 kernel_size of
                 Inl e \<Rightarrow> Inl e
               | Inr y \<Rightarrow> Inr (recover_shape y xs))
         else Inr (recover_shape (cmplx (pool (fst x1) kernel_size) (pool (snd x1) kernel_size)) xs))"

text \<open>
  \<open>MaxPoolCmplx\<close> (cmplx_modules.py); \<open>_pair\<close> (igcn/utils.py) is a parameter.
\<close>

record 'k maxpool =
  kernel_size :: 'k
  operator :: "string option"

definition MaxPoolCmplx_init :: "('k0 \<Rightarrow> 'k) \<Rightarrow> 'k0 \<Rightarrow> bool \<Rightarrow> 'k maxpool" where
  "MaxPoolCmplx_init pair_of ksize maxmag =
     \<lparr>kernel_size = pair_of ksize, operator = (if maxmag then Some ''maxmag'' else None)\<rparr>"

definition MaxPoolCmplx_forward ::
  "('x \<Rightarrow> (real t4 \<times> real t4) \<times> 's) \<Rightarrow> (real t4 \<times> real t4 \<Rightarrow> 's \<Rightarrow> 'y) \<Rightarrow>
   (real t4 \<Rightarrow> 'k \<Rightarrow> real t4 \<times> nat t4) \<Rightarrow> (real t4 \<Rightarrow> 'k \<Rightarrow> real t4) \<Rightarrow>
   'k maxpool \<Rightarrow> 'x \<Rightarrow> py_error + 'y" where
  "MaxPoolCmplx_forward compress_shape recover_shape max_pool2d_ri avg_pool2d mp x =
     pool_cmplx compress_shape recover_shape max_pool2d_ri avg_pool2d x (kernel_size mp) (operator mp)"

text \<open>
  An instance of the pooling primitive on which the functions are evaluated below: one
  window covering the whole plane, the first maximal entry winning.
\<close>

definition argmax :: "real list \<Rightarrow> nat" where
  "argmax xs = fold (\<lambda>i best. if xs ! best < xs ! i then i else best) [0..<length xs] 0"

definition whole_plane_max_pool :: "real t4 \<Rightarrow> unit \<Rightarrow> real t4 \<times> nat t4" where
  "whole_plane_max_pool r k =
     (map (map (\<lambda>p. [[concat p ! argmax (concat p)]])) r, map (map (\<lambda>p. [[argmax (concat p)]])) r)"

section \<open>Weight initialisation\<close>

text \<open>
  \<open>init_weights\<close> (cmplx.py).  \<open>torch.nn.init._calculate_fan_in_and_fan_out\<close> is applied to
  the real slice \<open>w[0]\<close> and depends on its shape only: it raises for fewer than two axes,
  and with the receptive field size the product of the sizes after the second axis,
  \<open>fan_in\<close> is \<open>size(1)\<close> and \<open>fan_out\<close> is \<open>size(0)\<close> times that product.
\<close>

definition calculate_fan_in_and_fan_out :: "nat list \<Rightarrow> py_error + nat \<times> nat" where
  "calculate_fan_in_and_fan_out shape =
     (if length shape < 2 then Inl ValueError
      else let receptive_field_size = prod_list (drop 2 shape)
           in Inr (shape ! 1 * receptive_field_size, shape ! 0 * receptive_field_size))"

text \<open>
  The value bound to \<open>sigma\<close>.  The two \<open>if\<close> statements test the mode against \<open>'he'\<close>
  and \<open>'glorot'\<close>; for any other mode \<open>sigma\<close> is unbound when it is read.  \<open>/\<close> is the
  true division of two Python integers.
\<close>

definition init_sigma :: "string \<Rightarrow> nat \<Rightarrow> nat \<Rightarrow> py_error + real" where
  "init_sigma mode fan_in fan_out =
     (if mode = ''he'' then
        (if fan_in = 0 then Inl ZeroDivisionError else Inr (1 / real fan_in))
      else if mode = ''glorot'' then
        (if fan_in + fan_out = 0 then Inl ZeroDivisionError else Inr (1 / real (fan_in + fan_out)))
      else Inl UnboundLocalError)"

text \<open>
  The samplers \<open>np.random.rayleigh(scale, size)\<close> and \<open>np.random.uniform(low, high, size)\<close>
  are parameters.  The result is the new value of \<open>w.data\<close>.
\<close>

definition init_weights ::
  "(real \<Rightarrow> nat list \<Rightarrow> real t4) \<Rightarrow> (real \<Rightarrow> real \<Rightarrow> nat list \<Rightarrow> real t4) \<Rightarrow>
   nat list \<Rightarrow> string \<Rightarrow> bool \<Rightarrow> py_error + (real t4 \<times> real t4)" where
  "init_weights rayleigh uniform shape mode polar =
     (case calculate_fan_in_and_fan_out shape of
        Inl e \<Rightarrow> Inl e
      | Inr (fan_in, fan_out) \<Rightarrow>
          (case init_sigma mode fan_in fan_out of
             Inl e \<Rightarrow> Inl e
           | Inr sigma \<Rightarrow>
               (let mag = rayleigh sigma shape;
                    phase = uniform (- pi) pi shape
                in Inr (if polar then cmplx mag phase
                        else cmplx (zip_t4 (*) mag (map_t4 cos phase))
                                   (zip_t4 (*) mag (map_t4 sin phase))))))"

section \<open>Properties\<close>

subsection \<open>Elementwise operations\<close>

lemma nth_map_t4:
  "in_range4 t n c h w \<Longrightarrow> map_t4 f t ! n ! c ! h ! w = f (t ! n ! c ! h ! w)"
  by (simp add: in_range4_def map_t4_def)

lemma in_range4_same_shape:
  assumes s: "same_shape4 a b" and r: "in_range4 a n c h w"
  shows "in_range4 b n c h w"
proof -
  from r have n: "n < length a" and c: "c < length (a ! n)"
    and h: "h < length (a ! n ! c)" and w: "w < length (a ! n ! c ! h)"
    by (simp_all add: in_range4_def)
  from s have l1: "length a = length b"
    unfolding same_shape4_def by (rule list_all2_lengthD)
  from s n have s1: "list_all2 (list_all2 (\<lambda>r s. length r = length s)) (a ! n) (b ! n)"
    unfolding same_shape4_def by (rule list_all2_nthD)
  then have l2: "length (a ! n) = length (b ! n)" by (rule list_all2_lengthD)
  from s1 c have s2: "list_all2 (\<lambda>r s. length r = length s) (a ! n ! c) (b ! n ! c)"
    by (rule list_all2_nthD)
  then have l3: "length (a ! n ! c) = length (b ! n ! c)" by (rule list_all2_lengthD)
  from s2 h have l4: "length (a ! n ! c ! h) = length (b ! n ! c ! h)"
    by (rule list_all2_nthD)
  from n c h w l1 l2 l3 l4 show ?thesis by (simp add: in_range4_def)
qed

lemma nth_zip_t4:
  "in_range4 a n c h w \<Longrightarrow> in_range4 b n c h w \<Longrightarrow>
   zip_t4 f a b ! n ! c ! h ! w = f (a ! n ! c ! h ! w) (b ! n ! c ! h ! w)"
  by (simp add: in_range4_def zip_t4_def)

lemma in_range4_map_t4: "in_range4 (map_t4 f t) n c h w = in_range4 t n c h w"
  by (auto simp add: in_range4_def map_t4_def)

lemma in_range4_zip_t4:
  "in_range4 a n c h w \<Longrightarrow> in_range4 b n c h w \<Longrightarrow> in_range4 (zip_t4 f a b) n c h w"
  by (simp add: in_range4_def zip_t4_def)

lemma list_all2_map2_left:
  assumes "list_all2 R a b" and "\<And>x y. R x y \<Longrightarrow> Q (f x y) x"
  shows "list_all2 Q (map2 f a b) a"
  using assms by (induction rule: list_all2_induct) simp_all

lemma same_shape4_map_t4: "same_shape4 (map_t4 f a) a"
  unfolding same_shape4_def map_t4_def
  by (simp add: list_all2_map1 list_all2_same)

lemma same_shape4_zip_t4:
  assumes "same_shape4 a b"
  shows "same_shape4 (zip_t4 f a b) a"
  using assms unfolding same_shape4_def zip_t4_def
  by (intro list_all2_map2_left [where R = "list_all2 (list_all2 (\<lambda>r s. length r = length s))"]
            list_all2_map2_left [where R = "list_all2 (\<lambda>r s. length r = length s)"]
            list_all2_map2_left [where R = "\<lambda>r s. length r = length s"]) simp_all

lemma same_shape4_sym: "same_shape4 a b \<Longrightarrow> same_shape4 b a"
  unfolding same_shape4_def
  by (simp add: list_all2_conv_all_nth)

lemma same_shape4_trans: "same_shape4 a b \<Longrightarrow> same_shape4 b c \<Longrightarrow> same_shape4 a c"
  unfolding same_shape4_def
  by (simp add: list_all2_conv_all_nth)

lemma nth_select:
  assumes "in_range4 cond n c h w" and "in_range4 a n c h w" and "in_range4 b n c h w"
  shows "select cond a b ! n ! c ! h ! w
         = (if cond ! n ! c ! h ! w then a ! n ! c ! h ! w else b ! n ! c ! h ! w)"
  using assms by (simp add: select_def nth_zip_t4 in_range4_zip_t4)

lemma in_range4_select:
  assumes "in_range4 cond n c h w" and "in_range4 a n c h w" and "in_range4 b n c h w"
  shows "in_range4 (select cond a b) n c h w"
  using assms by (simp add: select_def in_range4_zip_t4)

lemma same_shape4_select:
  assumes "same_shape4 cond a" and "same_shape4 a b"
  shows "same_shape4 (select cond a b) a"
proof -
  have "same_shape4 (zip_t4 Pair a b) a" using assms(2) by (rule same_shape4_zip_t4)
  then have "same_shape4 a (zip_t4 Pair a b)" by (rule same_shape4_sym)
  with assms(1) have "same_shape4 cond (zip_t4 Pair a b)" by (rule same_shape4_trans)
  then have "same_shape4 (select cond a b) cond"
    unfolding select_def by (rule same_shape4_zip_t4)
  then show ?thesis using assms(1) by (rule same_shape4_trans)
qed

text \<open>
  C7.  For every pair of equal-shaped real arrays and every positive \<open>eps\<close>, each entry
  of the magnitude is \<open>sqrt (max (re\<^sup>2 + im\<^sup>2) eps)\<close>; its square is within \<open>eps\<close> of
  \<open>re\<^sup>2 + im\<^sup>2\<close>, it is at least \<open>sqrt eps\<close> and hence positive, and the result has the
  shape of the parts.
\<close>

theorem magnitude_clamped:
  assumes "0 < eps" and "same_shape4 re_part im_part" and "in_range4 re_part n c h w"
  shows "(let s = (re_part ! n ! c ! h ! w)\<^sup>2 + (im_part ! n ! c ! h ! w)\<^sup>2;
              m = magnitude (cmplx re_part im_part) eps False ! n ! c ! h ! w
          in m = sqrt (max s eps) \<and> \<bar>m\<^sup>2 - s\<bar> \<le> eps \<and> sqrt eps \<le> m \<and> 0 < m)
         \<and> same_shape4 (magnitude (cmplx re_part im_part) eps False) re_part"
proof -
  let ?sq = "\<lambda>v::real. v ^ 2"
  let ?s = "(re_part ! n ! c ! h ! w)\<^sup>2 + (im_part ! n ! c ! h ! w)\<^sup>2"
  let ?sum = "zip_t4 (+) (map_t4 ?sq re_part) (map_t4 ?sq im_part)"
  have ri: "in_range4 im_part n c h w"
    using assms(2,3) by (rule in_range4_same_shape)
  have r1: "in_range4 (map_t4 ?sq re_part) n c h w" and r2: "in_range4 (map_t4 ?sq im_part) n c h w"
    using assms(3) ri by (simp_all add: in_range4_map_t4)
  have sum_nth: "?sum ! n ! c ! h ! w = ?s"
    using r1 r2 assms(3) ri by (simp add: nth_zip_t4 nth_map_t4)
  have sum_rng: "in_range4 ?sum n c h w" using r1 r2 by (rule in_range4_zip_t4)
  have m: "magnitude (cmplx re_part im_part) eps False ! n ! c ! h ! w = sqrt (max ?s eps)"
    using sum_rng sum_nth by (simp add: magnitude_def cmplx_def nth_map_t4)
  have s0: "0 \<le> ?s" by simp
  have "0 \<le> max ?s eps" using s0 by (rule max.coboundedI1)
  then have sq: "(sqrt (max ?s eps))\<^sup>2 = max ?s eps" by simp
  have b1: "\<bar>(sqrt (max ?s eps))\<^sup>2 - ?s\<bar> \<le> eps"
    unfolding sq using s0 assms(1) by (simp add: max_def)
  have b2: "sqrt eps \<le> sqrt (max ?s eps)" by simp
  have b3: "0 < sqrt (max ?s eps)" using assms(1) by (simp add: max_def)
  have sh1: "same_shape4 (map_t4 ?sq re_part) re_part" by (rule same_shape4_map_t4)
  have "same_shape4 (map_t4 ?sq im_part) im_part" by (rule same_shape4_map_t4)
  then have "same_shape4 (map_t4 ?sq im_part) re_part"
    using assms(2) same_shape4_sym same_shape4_trans by blast
  then have "same_shape4 (map_t4 ?sq re_part) (map_t4 ?sq im_part)"
    using sh1 same_shape4_sym same_shape4_trans by blast
  then have "same_shape4 ?sum (map_t4 ?sq re_part)" by (rule same_shape4_zip_t4)
  then have sh2: "same_shape4 ?sum re_part" using sh1 by (rule same_shape4_trans)
  have "same_shape4 (map_t4 (\<lambda>v. sqrt (max v eps)) ?sum) ?sum" by (rule same_shape4_map_t4)
  then have sh: "same_shape4 (magnitude (cmplx re_part im_part) eps False) re_part"
    using sh2 by (simp add: magnitude_def cmplx_def same_shape4_trans)
  show ?thesis using m b1 b2 b3 sh by (simp add: Let_def)
qed

theorem magnitude_clamped_witness:
  "(0::real) < 1 / 10 ^ 8 \<and> same_shape4 [[[[3::real]]]] [[[[4::real]]]]
   \<and> in_range4 [[[[3::real]]]] 0 0 0 0
   \<and> magnitude (cmplx [[[[3]]]] [[[[4]]]]) (1 / 10 ^ 8) False ! 0 ! 0 ! 0 ! 0 = 5
   \<and> magnitude (cmplx [[[[0]]]] [[[[0]]]]) (1 / 10 ^ 8) False ! 0 ! 0 ! 0 ! 0 = 1 / 10 ^ 4"
proof -
  have a: "(0::real) < 1 / 10 ^ 8" by simp
  have b: "same_shape4 [[[[3::real]]]] [[[[4::real]]]]" by (simp add: same_shape4_def)
  have c: "in_range4 [[[[3::real]]]] 0 0 0 0" by (simp add: in_range4_def)
  have b0: "same_shape4 [[[[0::real]]]] [[[[0::real]]]]" by (simp add: same_shape4_def)
  have c0: "in_range4 [[[[0::real]]]] 0 0 0 0" by (simp add: in_range4_def)
  have s5: "sqrt 25 = 5" by (rule real_sqrt_unique) simp_all
  have s4: "sqrt (1 / 100000000) = 1 / 10000"
    by (rule real_sqrt_unique) (simp_all add: power2_eq_square)
  from magnitude_clamped [OF a b c] have "magnitude (cmplx [[[[3]]]] [[[[4]]]]) (1 / 10 ^ 8) False ! 0 ! 0 ! 0 ! 0 = 5"
    by (simp add: Let_def s5)
  moreover from magnitude_clamped [OF a b0 c0]
  have "magnitude (cmplx [[[[0]]]] [[[[0]]]]) (1 / 10 ^ 8) False ! 0 ! 0 ! 0 ! 0 = 1 / 10 ^ 4"
    by (simp add: Let_def s4)
  ultimately show ?thesis using a b c by simp
qed


text \<open>
  C8.  The \<open>'z'\<close> ReLU is a joint gate: at every position the output is the input
  complex value when both its real and its imaginary component are strictly positive,
  and complex zero (both components zero) otherwise.
\<close>

theorem relu_cmplx_z_joint_gate:
  assumes "same_shape4 re_part im_part" and "in_range4 re_part n c h w"
  shows "(fst (relu_cmplx_z (cmplx re_part im_part)) ! n ! c ! h ! w,
          snd (relu_cmplx_z (cmplx re_part im_part)) ! n ! c ! h ! w)
         = (if 0 < re_part ! n ! c ! h ! w \<and> 0 < im_part ! n ! c ! h ! w
            then (re_part ! n ! c ! h ! w, im_part ! n ! c ! h ! w) else (0, 0))
       \<and> in_range4 (fst (relu_cmplx_z (cmplx re_part im_part))) n c h w
       \<and> in_range4 (snd (relu_cmplx_z (cmplx re_part im_part))) n c h w"
proof -
  let ?pos = "map_t4 (\<lambda>v::real. 0 < v)"
  let ?zero = "map_t4 (\<lambda>_::real. 0::real)"
  let ?a = "select (?pos re_part) re_part (?zero re_part)"
  let ?b = "select (?pos re_part) im_part (?zero im_part)"
  have ri: "in_range4 im_part n c h w" using assms by (rule in_range4_same_shape)
  have ra: "in_range4 ?a n c h w"
    using assms(2) by (intro in_range4_select) (simp_all add: in_range4_map_t4)
  have rb: "in_range4 ?b n c h w"
    using assms(2) ri by (intro in_range4_select) (simp_all add: in_range4_map_t4)
  have a: "?a ! n ! c ! h ! w = (if 0 < re_part ! n ! c ! h ! w then re_part ! n ! c ! h ! w else 0)"
    using assms(2) by (simp add: nth_select in_range4_map_t4 nth_map_t4)
  have b: "?b ! n ! c ! h ! w = (if 0 < re_part ! n ! c ! h ! w then im_part ! n ! c ! h ! w else 0)"
    using assms(2) ri by (simp add: nth_select in_range4_map_t4 nth_map_t4)
  have out: "relu_cmplx_z (cmplx re_part im_part)
             = (select (?pos ?b) ?a (?zero ?a), select (?pos ?b) ?b (?zero ?b))"
    by (simp add: relu_cmplx_z_def cmplx_def torch_where_def zeros_like_def Let_def)
  have o1: "select (?pos ?b) ?a (?zero ?a) ! n ! c ! h ! w
            = (if 0 < ?b ! n ! c ! h ! w then ?a ! n ! c ! h ! w else 0)"
    using ra rb by (simp add: nth_select in_range4_map_t4 nth_map_t4)
  have o2: "select (?pos ?b) ?b (?zero ?b) ! n ! c ! h ! w
            = (if 0 < ?b ! n ! c ! h ! w then ?b ! n ! c ! h ! w else 0)"
    using rb by (simp add: nth_select in_range4_map_t4 nth_map_t4)
  have r1: "in_range4 (select (?pos ?b) ?a (?zero ?a)) n c h w"
    by (rule in_range4_select) (use ra rb in \<open>simp_all add: in_range4_map_t4\<close>)
  have r2: "in_range4 (select (?pos ?b) ?b (?zero ?b)) n c h w"
    by (rule in_range4_select) (use rb in \<open>simp_all add: in_range4_map_t4\<close>)
  show ?thesis
    unfolding out fst_conv snd_conv o1 o2 a b using r1 r2 by simp
qed

theorem relu_cmplx_z_joint_gate_witness:
  "same_shape4 [[[[2::real, 2, -1, -1]]]] [[[[3::real, -3, 3, -3]]]]
   \<and> in_range4 [[[[2::real, 2, -1, -1]]]] 0 0 0 1
   \<and> relu_cmplx_z (cmplx [[[[2, 2, -1, -1]]]] [[[[3, -3, 3, -3]]]])
       = ([[[[2, 0, 0, 0]]]], [[[[3, 0, 0, 0]]]])
   \<and> fst (relu_cmplx_z (cmplx [[[[2, 2, -1, -1]]]] [[[[3, -3, 3, -3]]]])) ! 0 ! 0 ! 0 ! 1 = 0"
proof -
  have s: "same_shape4 [[[[2::real, 2, -1, -1]]]] [[[[3::real, -3, 3, -3]]]]"
    by (simp add: same_shape4_def)
  have r: "in_range4 [[[[2::real, 2, -1, -1]]]] 0 0 0 1" by (simp add: in_range4_def)
  have e: "relu_cmplx_z (cmplx [[[[2, 2, -1, -1]]]] [[[[3, -3, 3, -3]]]])
           = ([[[[2, 0, 0, 0]]]], [[[[3, 0, 0, 0]]]])"
    by (simp add: relu_cmplx_z_def cmplx_def torch_where_def zeros_like_def select_def
        zip_t4_def map_t4_def)
  from relu_cmplx_z_joint_gate [OF s r]
  have "fst (relu_cmplx_z (cmplx [[[[2, 2, -1, -1]]]] [[[[3, -3, 3, -3]]]])) ! 0 ! 0 ! 0 ! 1 = 0"
    by simp
  with s r e show ?thesis by simp
qed

subsection \<open>Complex convolution\<close>

lemma transpose_swaps_axes:
  assumes rect: "\<forall>row \<in> set w. length row = m" and oc: "oc < length w" and i: "i < m"
  shows "transpose w ! i ! oc = w ! oc ! i"
proof -
  have ne: "w = [] \<Longrightarrow> m = 0" using oc by simp
  have r: "\<And>j. j < length w \<Longrightarrow> length (w ! j) = m" using rect by simp
  have "transpose w = map (\<lambda>i. map (\<lambda>j. w ! j ! i) [0..<length w]) [0..<m]"
    using ne r by (rule transpose_rectangle)
  then show ?thesis using oc i by simp
qed

text \<open>
  C3.  In both modes the complex convolution is the four-real-convolution formula: real
  part \<open>conv re_x re_w - conv im_x im_w\<close>, imaginary part \<open>conv re_x im_w + conv im_x re_w\<close>.
  The plain mode uses the convolution primitive on the weight as given; the transposed
  mode uses the transposed-convolution primitive on the weight with its out and in channel
  axes swapped: entry \<open>(i, oc)\<close> of the swapped slice is entry \<open>(oc, i)\<close> of the original.
\<close>

theorem conv_cmplx_four_real_convs:
  "conv_cmplx conv2d conv_transpose2d (cmplx xr xi) (cmplx wr wi) False
     = cmplx (zip_t4 (-) (conv2d xr wr) (conv2d xi wi)) (zip_t4 (+) (conv2d xr wi) (conv2d xi wr))
   \<and> conv_cmplx conv2d conv_transpose2d (cmplx xr xi) (cmplx wr wi) True
     = cmplx (zip_t4 (-) (conv_transpose2d xr (transpose wr)) (conv_transpose2d xi (transpose wi)))
             (zip_t4 (+) (conv_transpose2d xr (transpose wi)) (conv_transpose2d xi (transpose wr)))
   \<and> ((\<forall>row \<in> set wr. length row = m) \<and> oc < length wr \<and> i < m
        \<longrightarrow> transpose wr ! i ! oc = wr ! oc ! i)"
proof -
  have "transpose wr ! i ! oc = wr ! oc ! i"
    if "\<forall>row \<in> set wr. length row = m" and "oc < length wr" and "i < m"
    using that by (rule transpose_swaps_axes)
  then show ?thesis by (simp add: conv_cmplx_def cmplx_def)
qed

theorem conv_cmplx_four_real_convs_witness:
  "list_all (\<lambda>row. length row = 3) [[[[1::real]], [[2]], [[3]]], [[[4]], [[5]], [[6]]]]
   \<and> (1::nat) < length [[[[1::real]], [[2]], [[3]]], [[[4]], [[5]], [[6]]]] \<and> (2::nat) < 3
   \<and> transpose [[[[1::real]], [[2]], [[3]]], [[[4]], [[5]], [[6]]]] ! 2 ! 1 = [[6]]
   \<and> conv_cmplx (\<lambda>x w. zip_t4 (*) x w) (\<lambda>x w. w) (cmplx [[[[2]]]] [[[[3]]]]) (cmplx [[[[5]]]] [[[[7]]]]) False
       = ([[[[-11]]]], [[[[29]]]])"
proof -
  let ?w = "[[[[1::real]], [[2]], [[3]]], [[[4]], [[5]], [[6]]]]"
  have a: "\<forall>row \<in> set ?w. length row = 3" by simp
  have b: "(1::nat) < length ?w" by simp
  have c: "(2::nat) < 3" by simp
  from conv_cmplx_four_real_convs [of _ _ _ _ ?w _ 3 1 2] a b c
  have t: "transpose ?w ! 2 ! 1 = ?w ! 1 ! 2" by blast
  have e: "conv_cmplx (\<lambda>x w. zip_t4 (*) x w) (\<lambda>x w. w) (cmplx [[[[2]]]] [[[[3]]]]) (cmplx [[[[5]]]] [[[[7]]]]) False
       = ([[[[-11]]]], [[[[29]]]])"
    using conv_cmplx_four_real_convs [of "\<lambda>x w. zip_t4 (*) x w" "\<lambda>x w. w" "[[[[2]]]]" "[[[[3]]]]" "[[[[5]]]]" "[[[[7]]]]"]
    by (simp add: cmplx_def zip_t4_def)
  from a b c t e show ?thesis by (simp add: list_all_iff)
qed

subsection \<open>Filter cache\<close>

text \<open>
  C1.  The flag is Stale (\<open>calc_filters = True\<close>) at construction; every forward call
  leaves it Valid, regenerating and caching the bank from the current parameters when it
  was Stale and leaving the state untouched when it was Valid; the only operation that
  takes a Valid layer to Stale is the backward hook.  Hence a second forward call on the
  same weight with no gradient computation in between reuses the cached bank and returns
  the identical enhanced weight, even if the parameters were changed meanwhile, and a
  forward call right after the backward hook regenerates the bank from the current
  parameters.
\<close>

theorem filter_cache_lifecycle:
  "calc_filters (IGaborCmplx_init params0 buffer0)
   \<and> \<not> calc_filters (fst (IGaborCmplx_forward gabor_cmplx s x))
   \<and> (calc_filters s \<longrightarrow>
        gabor_filters (fst (IGaborCmplx_forward gabor_cmplx s x))
          = unsqueeze2 (gabor_cmplx x (gabor_params s)))
   \<and> (\<not> calc_filters s \<longrightarrow> fst (IGaborCmplx_forward gabor_cmplx s x) = s)
   \<and> (\<not> calc_filters s \<and> calc_filters (apply_op gabor_cmplx op s) \<longrightarrow> op = BackwardHook)
   \<and> (let s1 = fst (IGaborCmplx_forward gabor_cmplx s x);
           s2 = apply_op gabor_cmplx (UpdateParams p) s1
       in gabor_filters (fst (IGaborCmplx_forward gabor_cmplx s2 x)) = gabor_filters s1
          \<and> snd (IGaborCmplx_forward gabor_cmplx s2 x) = snd (IGaborCmplx_forward gabor_cmplx s x)
          \<and> snd (IGaborCmplx_forward gabor_cmplx s1 x) = snd (IGaborCmplx_forward gabor_cmplx s x))
   \<and> (let s3 = apply_op gabor_cmplx BackwardHook s
       in gabor_filters (fst (IGaborCmplx_forward gabor_cmplx s3 x))
            = unsqueeze2 (gabor_cmplx x (gabor_params s))
          \<and> snd (IGaborCmplx_forward gabor_cmplx s3 x)
            = modulate (unsqueeze2 (gabor_cmplx x (gabor_params s))) x)"
proof -
  have 5: "op = BackwardHook" if "\<not> calc_filters s" and "calc_filters (apply_op gabor_cmplx op s)"
    using that
    by (cases op) (simp_all add: IGaborCmplx_forward_def generate_gabor_filters_def Let_def)
  show ?thesis
    using 5
    by (simp add: IGaborCmplx_init_def IGaborCmplx_forward_def generate_gabor_filters_def
        set_filter_calc_def Let_def)
qed


theorem filter_cache_lifecycle_witness:
  "(let gc = (\<lambda>x p. ([[[[hd (hd p)]]]], [[[[hd (hd p)]]]]));
        x = ([[[[3]]]], [[[[5]]]]);
        s0 = IGaborCmplx_init [[2], [0]] ([], []);
        s1 = apply_op gc (Forward x) s0;
        s2 = apply_op gc (UpdateParams [[7], [0]]) s1;
        s3 = apply_op gc BackwardHook s2
    in calc_filters s0 \<and> \<not> calc_filters s1 \<and> \<not> calc_filters s2 \<and> calc_filters s3
       \<and> snd (IGaborCmplx_forward gc s0 x) = ([[[[6]]]], [[[[10]]]])
       \<and> snd (IGaborCmplx_forward gc s2 x) = ([[[[6]]]], [[[[10]]]])
       \<and> snd (IGaborCmplx_forward gc s3 x) = ([[[[21]]]], [[[[35]]]]))"
  using filter_cache_lifecycle
    [of "[[2], [0]]" "([], [])" "\<lambda>x p. ([[[[hd (hd p)]]]], [[[[hd (hd p)]]]])"
        "IGaborCmplx_init [[2], [0]] ([], [])" "([[[[3]]]], [[[[5]]]])" BackwardHook "[[7], [0]]"]
  by (simp add: IGaborCmplx_init_def IGaborCmplx_forward_def generate_gabor_filters_def
      set_filter_calc_def modulate_def mul_bcast5_def bzip_def unsqueeze2_def Let_def)

subsection \<open>Layer construction\<close>

text \<open>
  C2.  With no pooling over the Gabor axis configured and a positive number of Gabor
  filters, construction raises the configuration error (\<open>ValueError\<close>) exactly when
  \<open>no_g\<close> does not divide \<open>output_features\<close>; otherwise it succeeds and both convolutions
  get \<open>output_features / no_g\<close> output channels.  The error is a result of the constructor,
  so no layer value exists on which a later forward call could raise it.  In particular
  \<open>output_features = 10, no_g = 4\<close> raises and \<open>output_features = 12, no_g = 4\<close> succeeds
  with 3 channels per orientation.
\<close>

theorem IGConvCmplx_init_divisibility:
  assumes "0 < g"
  shows "(IGConvCmplx_init i out g None = Inl ValueError \<longleftrightarrow> \<not> g dvd out)
       \<and> (isl (IGConvCmplx_init i out g None) \<longleftrightarrow> \<not> g dvd out)
       \<and> (g dvd out \<longrightarrow>
            (\<exists>c. IGConvCmplx_init i out g None = Inr c
                 \<and> out_channels c = out div g \<and> out_channels c * g = out \<and> no_g c = g
                 \<and> gabor_pooling c = None))
       \<and> IGConvCmplx_init i 10 4 None = Inl ValueError
       \<and> IGConvCmplx_init i 12 4 None
           = Inr \<lparr>in_channels = i, out_channels = 3, no_g = 4, gabor_pooling = None\<rparr>"
  using assms by (auto simp: IGConvCmplx_init_def resolve_pooling_def dvd_eq_mod_eq_0)

theorem IGConvCmplx_init_divisibility_witness:
  "(0::int) < 4
   \<and> IGConvCmplx_init 1 10 4 None = Inl ValueError \<and> \<not> (4::int) dvd 10
   \<and> (4::int) dvd 12
   \<and> (\<exists>c. IGConvCmplx_init 1 12 4 None = Inr c \<and> out_channels c = 3)"
  using IGConvCmplx_init_divisibility [of 4 1 12] IGConvCmplx_init_divisibility [of 4 1 10]
  by simp

subsection \<open>Pooling over the Gabor axis\<close>

lemma split_axis_nth:
  assumes "i < length xs div g" and "k < g"
  shows "split_axis g xs ! i ! k = xs ! (i * g + k)"
proof -
  have "i * g + k < Suc i * g" using assms(2) by simp
  also have "\<dots> \<le> (length xs div g) * g" using assms(1) by (simp only: mult_le_mono1 Suc_leI)
  also have "\<dots> \<le> length xs" by simp
  finally have b: "i * g + k < length xs" .
  then have "i * g \<le> length xs" by simp
  then show ?thesis using assms by (simp add: split_axis_def)
qed

lemma concat_nth_rect:
  assumes "\<forall>r \<in> set rows. length r = n" and "q < length rows * n"
  shows "concat rows ! q = rows ! (q div n) ! (q mod n)"
  using assms
proof (induction rows arbitrary: q)
  case Nil
  then show ?case by simp
next
  case (Cons r rows)
  have n: "0 < n" using Cons.prems(2) by (cases n) simp_all
  have lr: "length r = n" using Cons.prems(1) by simp
  show ?case
  proof (cases "q < n")
    case True
    then show ?thesis using lr by (simp add: nth_append)
  next
    case False
    then have ge: "n \<le> q" by simp
    have "q - n < length rows * n" using Cons.prems(2) ge by simp
    with Cons.IH [of "q - n"] Cons.prems(1)
    have ih: "concat rows ! (q - n) = rows ! ((q - n) div n) ! ((q - n) mod n)" by simp
    have d: "q div n = Suc ((q - n) div n)" using n ge by (rule le_div_geq)
    have m: "q mod n = (q - n) mod n" using ge by (rule le_mod_geq)
    show ?thesis using False lr ih by (simp add: nth_append d m)
  qed
qed

lemma example_enhanced_weight:
  "IGaborCmplx_forward example_bank (gabor (example_module gp))
     (cmplx (ReConv_weight (example_module gp)) (ImConv_weight (example_module gp)))
   = (generate_gabor_filters example_bank (gabor (example_module gp))
        (cmplx (ReConv_weight (example_module gp)) (ImConv_weight (example_module gp))),
      ([[[[10]]], [[[20]]], [[[100]]], [[[200]]]], [[[[3]]], [[[4]]], [[[3]]], [[[4]]]]))"
  by (simp add: IGaborCmplx_forward_def example_module_def example_bank_def cmplx_def
      IGaborCmplx_init_def generate_gabor_filters_def unsqueeze2_def modulate_def
      mul_bcast5_def bzip_def Let_def)

lemma example_pool_view:
  "pool_view (conv_cmplx conv2d_pointwise conv2d_pointwise ([[[[1]]]], [[[[0]]]])
                ([[[[10]]], [[[20]]], [[[100]]], [[[200]]]], [[[[3]]], [[[4]]], [[[3]]], [[[4]]]])
                False)
     (int (length (fst ([[[[10::real]]], [[[20]]], [[[100]]], [[[200]]]],
                        [[[[3::real]]], [[[4]]], [[[3]]], [[[4]]]]))))
     (no_g (example_module gp))
   = Inr ([[[[[10]], [[20]]], [[[100]], [[200]]]]], [[[[[3]], [[4]]], [[[3]], [[4]]]]])"
  by (simp add: example_module_def conv_cmplx_def conv2d_pointwise_def zip_t4_def cmplx_def
      pool_view_def split_axis_def)

text \<open>
  C4 (the code departs from the claim).  \<open>IGaborCmplx.forward\<close> lays the enhanced weight
  out filter-major: with \<open>rows ! g ! oc\<close> the kernel of Gabor filter \<open>g\<close> modulating base
  channel \<open>oc\<close>, the channels are \<open>concat rows\<close>, and so are the channels of the convolution
  output.  The view in \<open>IGConvCmplx.forward\<close> reads entry \<open>(i, k)\<close> of the pair of axes
  \<open>[out_features_per_group, no_g]\<close> from channel \<open>i * no_g + k\<close>, which is filter
  \<open>(i * no_g + k) div n_out\<close> on base channel \<open>(i * no_g + k) mod n_out\<close>, not filter \<open>k\<close> on
  base channel \<open>i\<close>.  On the concrete layer the four output channels are \<open>10 = 10 * 1\<close>,
  \<open>20 = 10 * 2\<close>, \<open>100 = 100 * 1\<close>, \<open>200 = 100 * 2\<close>; the reshaped entry at group 0,
  position 1 is \<open>20\<close>, filter 0 on base channel 1, and not \<open>100\<close>, filter 1 on base channel 0.
  Max pooling returns \<open>20\<close> and \<open>200\<close>, each the maximum over the two base channels of one
  filter, where pooling over the orientations would give \<open>100\<close> and \<open>200\<close>.
\<close>

theorem pool_view_groups_base_channels:
  assumes rect: "\<forall>r \<in> set rows. length r = n_out" and g: "length rows = g"
    and i: "i < n_out" and k: "k < g"
  shows "split_axis g (concat rows) ! i ! k
         = rows ! ((i * g + k) div n_out) ! ((i * g + k) mod n_out)
       \<and> modulate filters w = (concat (mul_bcast5 (fst filters) [fst w]),
                                concat (mul_bcast5 (snd filters) [snd w]))"
proof -
  have len: "length (concat rows) = g * n_out"
    using rect g by (induction rows arbitrary: g) auto
  have gpos: "0 < g" using k by simp
  have "i < length (concat rows) div g" using i gpos by (simp add: len)
  then have "split_axis g (concat rows) ! i ! k = concat rows ! (i * g + k)"
    using k by (rule split_axis_nth)
  moreover have "i * g + k < length rows * n_out"
  proof -
    have "i * g + k < Suc i * g" using k by simp
    also have "\<dots> \<le> n_out * g" using i by (simp only: mult_le_mono1 Suc_leI)
    finally show ?thesis using g by (simp add: mult.commute)
  qed
  ultimately show ?thesis using concat_nth_rect [OF rect] by (simp add: modulate_def)
qed

theorem pool_view_groups_base_channels_witness:
  "list_all (\<lambda>r. length r = 2) [[[[10::real]], [[20]]], [[[100]], [[200]]]]
   \<and> length [[[[10::real]], [[20]]], [[[100]], [[200]]]] = 2 \<and> (0::nat) < 2 \<and> (1::nat) < 2
   \<and> split_axis 2 (concat [[[[10::real]], [[20]]], [[[100]], [[200]]]]) ! 0 ! 1 = [[20]]
   \<and> [[[[10::real]], [[20]]], [[[100]], [[200]]]] ! 0 ! 1 = [[20]]
   \<and> [[[[10::real]], [[20]]], [[[100]], [[200]]]] ! 1 ! 0 = [[100]]
   \<and> (let m = example_module (Some TorchMax);
            x = ([[[[1]]]], [[[[0]]]]);
            ew = snd (IGaborCmplx_forward example_bank (gabor m)
                        (cmplx (ReConv_weight m) (ImConv_weight m)));
            out = conv_cmplx conv2d_pointwise conv2d_pointwise x ew False
        in fst ew = [[[[10 * 1]]], [[[10 * 2]]], [[[100 * 1]]], [[[100 * 2]]]]
           \<and> fst out = [concat [[[[10]], [[20]]], [[[100]], [[200]]]]]
           \<and> pool_view out (int (length (fst ew))) (no_g m)
               = Inr ([[[[[10]], [[20]]], [[[100]], [[200]]]]], [[[[[3]], [[4]]], [[[3]], [[4]]]]])
           \<and> map_sum id snd
                 (IGConvCmplx_forward conv2d_pointwise conv2d_pointwise example_bank
                    torch_max_dim3 m x)
               = Inr (Cplx ([[[[20]], [[200]]]], [[[[4]], [[4]]]])))"
proof -
  let ?rows = "[[[[10::real]], [[20]]], [[[100]], [[200]]]]"
  have r: "\<forall>r \<in> set ?rows. length r = 2" by simp
  have l: "length ?rows = 2" by simp
  have i: "(0::nat) < 2" and k: "(1::nat) < 2" by simp_all
  from pool_view_groups_base_channels [OF r l i k]
  have e: "split_axis 2 (concat ?rows) ! 0 ! 1 = [[20]]" by simp
  have f: "(let m = example_module (Some TorchMax);
            x = ([[[[1]]]], [[[[0]]]]);
            ew = snd (IGaborCmplx_forward example_bank (gabor m)
                        (cmplx (ReConv_weight m) (ImConv_weight m)));
            out = conv_cmplx conv2d_pointwise conv2d_pointwise x ew False
        in fst ew = [[[[10 * 1]]], [[[10 * 2]]], [[[100 * 1]]], [[[100 * 2]]]]
           \<and> fst out = [concat [[[[10]], [[20]]], [[[100]], [[200]]]]]
           \<and> pool_view out (int (length (fst ew))) (no_g m)
               = Inr ([[[[[10]], [[20]]], [[[100]], [[200]]]]], [[[[[3]], [[4]]], [[[3]], [[4]]]]])
           \<and> map_sum id snd
                 (IGConvCmplx_forward conv2d_pointwise conv2d_pointwise example_bank
                    torch_max_dim3 m x)
               = Inr (Cplx ([[[[20]], [[200]]]], [[[[4]], [[4]]]])))"
    by (simp add: IGConvCmplx_forward_def IGaborCmplx_forward_def example_module_def
        example_bank_def cmplx_def IGaborCmplx_init_def generate_gabor_filters_def unsqueeze2_def
        modulate_def mul_bcast5_def bzip_def Let_def conv_cmplx_def conv2d_pointwise_def
        zip_t4_def pool_view_def split_axis_def call_pooling_def torch_max_dim3_def)
  from e f show ?thesis by (simp add: list_all_iff)
qed

text \<open>
  C5 (the code departs from the claim).  Whenever the view succeeds, with \<open>'max'\<close> the
  value returned is complex, the maximum over the pooled axis taken in the real and in the
  imaginary slice separately.  With \<open>'avg'\<close>, \<open>torch.mean\<close> returns one tensor; unpacking it
  binds \<open>pool_out\<close> to its real slice and \<open>max_idxs\<close> to its imaginary slice, and \<open>forward\<close>
  returns the mean of the real slice alone, a real tensor.  On the concrete layer these are
  the means \<open>15\<close> and \<open>150\<close>, the means \<open>7 / 2\<close> of the imaginary part being dropped.
\<close>

theorem avg_pooling_returns_real_slice_only:
  assumes gab: "IGaborCmplx_forward gabor_cmplx (gabor m)
                  (cmplx (ReConv_weight m) (ImConv_weight m)) = (gs, ew)"
    and view: "pool_view (conv_cmplx conv2d conv_transpose2d x ew False)
                 (int (length (fst ew))) (no_g m) = Inr pool_out"
  shows "(gabor_pooling m = Some TorchMax \<longrightarrow>
            IGConvCmplx_forward conv2d conv_transpose2d gabor_cmplx max_mag_gabor_pool m x
            = Inr (m\<lparr>gabor := gs\<rparr>,
                   Cplx (map (map (reduce_planes max)) (fst pool_out),
                         map (map (reduce_planes max)) (snd pool_out))))
       \<and> (gabor_pooling m = Some TorchMean \<longrightarrow>
            IGConvCmplx_forward conv2d conv_transpose2d gabor_cmplx max_mag_gabor_pool m x
            = Inr (m\<lparr>gabor := gs\<rparr>, Rl (map (map mean_planes) (fst pool_out))))"
  using gab view
  by (simp add: IGConvCmplx_forward_def call_pooling_def torch_max_dim3_def torch_mean_dim3_def)

theorem avg_pooling_returns_real_slice_only_witness:
  "gabor_pooling (example_module (Some TorchMean)) = Some TorchMean
   \<and> map_sum id snd
         (IGConvCmplx_forward conv2d_pointwise conv2d_pointwise example_bank torch_max_dim3
            (example_module (Some TorchMean)) ([[[[1]]]], [[[[0]]]]))
       = Inr (Rl [[[[15]], [[150]]]])
   \<and> gabor_pooling (example_module (Some TorchMax)) = Some TorchMax
   \<and> map_sum id snd
         (IGConvCmplx_forward conv2d_pointwise conv2d_pointwise example_bank torch_max_dim3
            (example_module (Some TorchMax)) ([[[[1]]]], [[[[0]]]]))
       = Inr (Cplx ([[[[20]], [[200]]]], [[[[4]], [[4]]]]))
   \<and> call_pooling torch_max_dim3 TorchMean
         ([[[[[10]], [[20]]], [[[100]], [[200]]]]], [[[[[3]], [[4]]], [[[3]], [[4]]]]])
       = Inr (Tensor ([[[[15]], [[150]]]], [[[[7 / 2]], [[7 / 2]]]]))"
proof -
  have a: "gabor_pooling (example_module gp) = gp" for gp by (simp add: example_module_def)
  have mean: "map_sum id snd
         (IGConvCmplx_forward conv2d_pointwise conv2d_pointwise example_bank torch_max_dim3
            (example_module (Some TorchMean)) ([[[[1]]]], [[[[0]]]]))
       = Inr (Rl [[[[15]], [[150]]]])"
    using avg_pooling_returns_real_slice_only [OF example_enhanced_weight example_pool_view,
        of "Some TorchMean" torch_max_dim3] a
    by (simp add: mean_planes_def)
  have mx: "map_sum id snd
         (IGConvCmplx_forward conv2d_pointwise conv2d_pointwise example_bank torch_max_dim3
            (example_module (Some TorchMax)) ([[[[1]]]], [[[[0]]]]))
       = Inr (Cplx ([[[[20]], [[200]]]], [[[[4]], [[4]]]]))"
    using avg_pooling_returns_real_slice_only [OF example_enhanced_weight example_pool_view,
        of "Some TorchMax" torch_max_dim3] a
    by simp
  have t: "call_pooling torch_max_dim3 TorchMean
         ([[[[[10]], [[20]]], [[[100]], [[200]]]]], [[[[[3]], [[4]]], [[[3]], [[4]]]]])
       = Inr (Tensor ([[[[15]], [[150]]]], [[[[7 / 2]], [[7 / 2]]]]))"
    by (simp add: call_pooling_def torch_mean_dim3_def mean_planes_def)
  from a mean mx t show ?thesis by simp
qed

subsection \<open>Spatial pooling\<close>

lemma view_rows_map_concat: "view_rows (map f (concat rs)) rs = map (map f) rs"
  by (induction rs) simp_all

lemma view_gather_planes:
  "map2 view_rows (map2 (\<lambda>p js. map (\<lambda>j. p ! j) js) (map concat a) (map concat b)) b
   = map2 (\<lambda>plane rows. map (map (\<lambda>j. concat plane ! j)) rows) a b"
proof (induction a arbitrary: b)
  case Nil
  then show ?case by simp
next
  case (Cons p a)
  then show ?case by (cases b) (simp_all add: view_rows_map_concat)
qed

lemma view_as_gather3:
  "view_as (gather3 (flatten3 s) (flatten3 ix)) ix
   = map2 (map2 (\<lambda>plane rows. map (map (\<lambda>j. concat plane ! j)) rows)) s ix"
  unfolding view_as_def gather3_def flatten3_def
proof (induction s arbitrary: ix)
  case Nil
  then show ?case by simp
next
  case (Cons a s)
  then show ?case by (cases ix) (simp_all add: view_gather_planes)
qed


lemma gather_ok_bounds:
  assumes "gather_ok (flatten3 s) (flatten3 ix)"
  shows "length ix \<le> length s" and "\<And>n. n < length ix \<Longrightarrow> length (ix ! n) \<le> length (s ! n)"
proof -
  from assms show l: "length ix \<le> length s" by (simp add: gather_ok_def flatten3_def)
  fix n assume n: "n < length ix"
  from assms have "list_all (\<lambda>(s, i). length i \<le> length s \<and>
                 list_all (\<lambda>(p, js). list_all (\<lambda>j. j < length p) js) (zip s i))
       (zip (flatten3 s) (flatten3 ix))"
    by (simp add: gather_ok_def)
  moreover have "n < length (zip (flatten3 s) (flatten3 ix))" using n l by (simp add: flatten3_def)
  ultimately have "(\<lambda>(s, i). length i \<le> length s \<and>
                 list_all (\<lambda>(p, js). list_all (\<lambda>j. j < length p) js) (zip s i))
         (zip (flatten3 s) (flatten3 ix) ! n)"
    by (simp only: list_all_length)
  then show "length (ix ! n) \<le> length (s ! n)" using n l by (simp add: flatten3_def)
qed

lemma pick_nth:
  assumes l: "length ix \<le> length s"
    and m: "\<And>n. n < length ix \<Longrightarrow> length (ix ! n) \<le> length (s ! n)"
    and r: "in_range4 ix n c i j"
  shows "map2 (map2 (\<lambda>plane rows. map (map (\<lambda>j. concat plane ! j)) rows)) s ix ! n ! c ! i ! j
         = concat (s ! n ! c) ! (ix ! n ! c ! i ! j)"
proof -
  from r have n: "n < length ix" and c: "c < length (ix ! n)"
    and i: "i < length (ix ! n ! c)" and j: "j < length (ix ! n ! c ! i)"
    by (simp_all add: in_range4_def)
  from n l have ns: "n < length s" by simp
  from m [OF n] c have cs: "c < length (s ! n)" by simp
  show ?thesis using n ns c cs i j by simp
qed

text \<open>
  C6.  Magnitude-consistent pooling computes the magnitude, takes the indices returned by
  the pooling primitive on it, and, whenever these indices are valid for the planes of the
  input (as the indices of a pooling are), returns at every window the real and the
  imaginary component read at that one index: the same flat position of the plane for
  both.
\<close>

theorem max_mag_pool_shared_index:
  assumes ix: "idxs = snd (max_pool2d_ri (magnitude x (1 / 10 ^ 8) False) k)"
    and g1: "gather_ok (flatten3 (fst x)) (flatten3 idxs)"
    and g2: "gather_ok (flatten3 (snd x)) (flatten3 idxs)"
  shows "\<exists>out. max_mag_pool max_pool2d_ri x k = Inr out
           \<and> fst out = map2 (map2 (\<lambda>plane rows. map (map (\<lambda>j. concat plane ! j)) rows)) (fst x) idxs
           \<and> snd out = map2 (map2 (\<lambda>plane rows. map (map (\<lambda>j. concat plane ! j)) rows)) (snd x) idxs
           \<and> (\<forall>n c i j. in_range4 idxs n c i j \<longrightarrow>
                 fst out ! n ! c ! i ! j = concat (fst x ! n ! c) ! (idxs ! n ! c ! i ! j)
               \<and> snd out ! n ! c ! i ! j = concat (snd x ! n ! c) ! (idxs ! n ! c ! i ! j))"
proof -
  let ?pick = "\<lambda>s. map2 (map2 (\<lambda>plane rows. map (map (\<lambda>j. concat plane ! j)) rows)) s idxs"
  have e: "max_mag_pool max_pool2d_ri x k = Inr (?pick (fst x), ?pick (snd x))"
    using g1 g2 unfolding ix
    by (simp add: max_mag_pool_def Let_def cmplx_def view_as_gather3)
  have p1: "?pick (fst x) ! n ! c ! i ! j = concat (fst x ! n ! c) ! (idxs ! n ! c ! i ! j)"
    if "in_range4 idxs n c i j" for n c i j
    using gather_ok_bounds [OF g1] that by (rule pick_nth)
  have p2: "?pick (snd x) ! n ! c ! i ! j = concat (snd x ! n ! c) ! (idxs ! n ! c ! i ! j)"
    if "in_range4 idxs n c i j" for n c i j
    using gather_ok_bounds [OF g2] that by (rule pick_nth)
  show ?thesis using e p1 p2 by simp
qed


lemma example_indices:
  "snd (whole_plane_max_pool (magnitude ([[[[3, 0]]]], [[[[-4, 1]]]]) (1 / 10 ^ 8) False) ())
   = [[[[0]]]]"
  by (simp add: whole_plane_max_pool_def magnitude_def zip_t4_def map_t4_def argmax_def)

lemma example_max_mag_pool:
  "max_mag_pool whole_plane_max_pool ([[[[3, 0]]]], [[[[-4, 1]]]]) () = Inr ([[[[3]]]], [[[[-4]]]])"
  unfolding max_mag_pool_def Let_def example_indices
  by (simp add: cmplx_def gather_ok_def flatten3_def view_as_def gather3_def)

theorem max_mag_pool_shared_index_witness:
  "gather_ok (flatten3 [[[[3::real, 0]]]]) (flatten3 [[[[0]]]])
   \<and> gather_ok (flatten3 [[[[-4::real, 1]]]]) (flatten3 [[[[0]]]])
   \<and> snd (whole_plane_max_pool (magnitude ([[[[3, 0]]]], [[[[-4, 1]]]]) (1 / 10 ^ 8) False) ())
       = [[[[0]]]]
   \<and> max_mag_pool whole_plane_max_pool ([[[[3, 0]]]], [[[[-4, 1]]]]) ()
       = Inr ([[[[3]]]], [[[[-4]]]])"
proof -
  let ?x = "([[[[3, 0]]]], [[[[-4, 1]]]]) :: real t4 \<times> real t4"
  have g1: "gather_ok (flatten3 (fst ?x)) (flatten3 [[[[0]]]])"
    by (simp add: gather_ok_def flatten3_def)
  have g2: "gather_ok (flatten3 (snd ?x)) (flatten3 [[[[0]]]])"
    by (simp add: gather_ok_def flatten3_def)
  from max_mag_pool_shared_index
         [of "[[[[0]]]]" whole_plane_max_pool ?x "()", OF example_indices [symmetric] g1 g2]
  have "max_mag_pool whole_plane_max_pool ?x () = Inr ([[[[3]]]], [[[[-4]]]])"
    by (auto simp add: prod_eq_iff)
  with g1 g2 example_indices show ?thesis by simp
qed

text \<open>
  C10.  \<open>pool_cmplx\<close> calls \<open>max_mag_pool\<close> only for the operator \<open>'mag'\<close>.  For every other
  operator it pools the real and the imaginary part independently, with the average
  primitive for \<open>'avg'\<close> and \<open>'average'\<close> and the max primitive otherwise.  \<open>MaxPoolCmplx\<close>
  passes \<open>'maxmag'\<close> or \<open>None\<close>, never \<open>'mag'\<close>, so whatever \<open>maxmag\<close> is it max-pools the two
  parts independently.
\<close>

theorem pool_cmplx_dispatch:
  "(opr \<noteq> Some ''mag'' \<longrightarrow>
      pool_cmplx compress_shape recover_shape max_pool2d_ri avg_pool2d x k opr
      = (let (x1, xs) = compress_shape x;
             pool = (if opr = Some ''avg'' \<or> opr = Some ''average'' then avg_pool2d
                     else (\<lambda>t k. fst (max_pool2d_ri t k)))
         in Inr (recover_shape (cmplx (pool (fst x1) k) (pool (snd x1) k)) xs)))
   \<and> pool_cmplx compress_shape recover_shape max_pool2d_ri avg_pool2d x k (Some ''mag'')
      = (let (x1, xs) = compress_shape x
         in case max_mag_pool max_pool2d_ri x1 k of
              Inl e \<Rightarrow> Inl e
            | Inr y \<Rightarrow> Inr (recover_shape y xs))
   \<and> operator (MaxPoolCmplx_init pair_of k0 maxmag) \<noteq> Some ''mag''
   \<and> MaxPoolCmplx_forward compress_shape recover_shape max_pool2d_ri avg_pool2d
        (MaxPoolCmplx_init pair_of k0 maxmag) x
      = (let (x1, xs) = compress_shape x
         in Inr (recover_shape
                   (cmplx (fst (max_pool2d_ri (fst x1) (pair_of k0)))
                          (fst (max_pool2d_ri (snd x1) (pair_of k0)))) xs))"
  by (simp add: pool_cmplx_def MaxPoolCmplx_forward_def MaxPoolCmplx_init_def Let_def
      split: prod.split)

theorem pool_cmplx_dispatch_witness:
  "Some ''maxmag'' \<noteq> Some ''mag''
   \<and> pool_cmplx (\<lambda>x. (x, ())) (\<lambda>y s. y) whole_plane_max_pool (\<lambda>t k. t)
        ([[[[3, 0]]]], [[[[-4, 1]]]]) () (Some ''maxmag'')
      = Inr ([[[[3]]]], [[[[1]]]])
   \<and> MaxPoolCmplx_forward (\<lambda>x. (x, ())) (\<lambda>y s. y) whole_plane_max_pool (\<lambda>t k. t)
        (MaxPoolCmplx_init (\<lambda>k. ()) (2::nat) True) ([[[[3, 0]]]], [[[[-4, 1]]]])
      = Inr ([[[[3]]]], [[[[1]]]])
   \<and> pool_cmplx (\<lambda>x. (x, ())) (\<lambda>y s. y) whole_plane_max_pool (\<lambda>t k. t)
        ([[[[3, 0]]]], [[[[-4, 1]]]]) () (Some ''mag'')
      = Inr ([[[[3]]]], [[[[-4]]]])"
proof -
  have a: "Some ''maxmag'' \<noteq> Some ''mag''" by simp
  note m = example_max_mag_pool
  show ?thesis
    using a m
      pool_cmplx_dispatch [of "Some ''maxmag''" "\<lambda>x. (x, ())" "\<lambda>y s. y" whole_plane_max_pool
        "\<lambda>t k. t" "([[[[3, 0]]]], [[[[-4, 1]]]])" "()" "\<lambda>k. ()" "2::nat" True]
    by (simp add: cmplx_def whole_plane_max_pool_def argmax_def)
qed

subsection \<open>Weight initialisation\<close>

text \<open>
  C9 (the code departs from the claim).  The fans are computed from the shape of the real
  kernel, the phases are drawn with bounds \<open>- pi\<close> and \<open>pi\<close>, and the cartesian storage is
  \<open>(mag * cos phase, mag * sin phase)\<close>.  But the value passed as the scale of the Rayleigh
  sampler is \<open>1 / fan_in\<close> (he) or \<open>1 / (fan_in + fan_out)\<close> (glorot) itself, not its square
  root: the square of the scale differs from \<open>1 / fan_in\<close> whenever \<open>fan_in > 1\<close>.  For a
  kernel of shape \<open>[1, 2, 1, 1]\<close> the scale is \<open>1 / 2\<close>, with square \<open>1 / 4\<close>.
\<close>

theorem init_weights_rayleigh_scale:
  "calculate_fan_in_and_fan_out [oc, ic, kh, kw] = Inr (ic * (kh * kw), oc * (kh * kw))
   \<and> (0 < fan_in \<longrightarrow> init_sigma ''he'' fan_in fan_out = Inr (1 / real fan_in))
   \<and> (0 < fan_in + fan_out \<longrightarrow>
        init_sigma ''glorot'' fan_in fan_out = Inr (1 / real (fan_in + fan_out)))
   \<and> (1 < fan_in \<longrightarrow> (1 / real fan_in)\<^sup>2 \<noteq> 1 / real fan_in)
   \<and> (init_sigma mode (ic * (kh * kw)) (oc * (kh * kw)) = Inr sigma \<longrightarrow>
        init_weights rayleigh uniform [oc, ic, kh, kw] mode False
        = (let mag = rayleigh sigma [oc, ic, kh, kw];
               phase = uniform (- pi) pi [oc, ic, kh, kw]
           in Inr (cmplx (zip_t4 (*) mag (map_t4 cos phase))
                         (zip_t4 (*) mag (map_t4 sin phase)))))"
proof -
  have "(1 / real fan_in)\<^sup>2 \<noteq> 1 / real fan_in" if "1 < fan_in"
  proof
    assume "(1 / real fan_in)\<^sup>2 = 1 / real fan_in"
    then have "1 / real fan_in * (1 / real fan_in) = 1 / real fan_in * 1"
      by (simp add: power2_eq_square)
    moreover have "1 / real fan_in \<noteq> 0" using that by simp
    ultimately have "1 / real fan_in = 1" by (simp only: mult_cancel_left) simp
    then show False using that by simp
  qed
  then show ?thesis
    by (simp add: calculate_fan_in_and_fan_out_def init_sigma_def init_weights_def Let_def)
qed

theorem init_weights_rayleigh_scale_witness:
  "calculate_fan_in_and_fan_out [1, 2, 1, 1] = Inr (2, 1)
   \<and> init_sigma ''he'' 2 1 = Inr (1 / 2) \<and> (1 / 2 :: real)\<^sup>2 \<noteq> 1 / 2
   \<and> init_sigma ''glorot'' 2 1 = Inr (1 / 3) \<and> (1 / 3 :: real)\<^sup>2 \<noteq> 1 / (2 + 1)
   \<and> init_weights (\<lambda>scale shape. [[[[scale]]]]) (\<lambda>low high shape. [[[[0]]]]) [1, 2, 1, 1] ''he'' False
       = Inr ([[[[1 / 2]]]], [[[[0]]]])
   \<and> init_weights (\<lambda>scale shape. [[[[scale]]]]) (\<lambda>low high shape. [[[[0]]]]) [1, 2, 1, 1] ''he'' True
       = Inr ([[[[1 / 2]]]], [[[[0]]]])"
  using init_weights_rayleigh_scale
    [of 1 2 1 1 2 1 "''he''" "1 / 2" "\<lambda>scale shape. [[[[scale]]]]" "\<lambda>low high shape. [[[[0]]]]"]
  by (simp add: calculate_fan_in_and_fan_out_def init_sigma_def init_weights_def Let_def
      cmplx_def zip_t4_def map_t4_def power2_eq_square)

end
